theory Spec2Isabelle
  imports Main
begin

section \<open>Package qparams: operators\<close>

text \<open>
  Go's \<open>LogicalOperator\<close> and \<open>RelationalOperator\<close> are named string types: any
  string is a value of the type, the constants below are the recognised tokens.
\<close>

type_synonym LogicalOperator = string
type_synonym RelationalOperator = string

definition AndOperator :: LogicalOperator where "AndOperator = ''and''"
definition OrOperator :: LogicalOperator where "OrOperator = ''or''"

definition EqualsOperator :: RelationalOperator where "EqualsOperator = ''eq''"
definition NotEqualsOperator :: RelationalOperator where "NotEqualsOperator = ''ne''"
definition GreaterThanOperator :: RelationalOperator where "GreaterThanOperator = ''gt''"
definition GreaterThanEqualsOperator :: RelationalOperator where "GreaterThanEqualsOperator = ''gte''"
definition LowerThanOperator :: RelationalOperator where "LowerThanOperator = ''lt''"
definition LowerThanEqualsOperator :: RelationalOperator where "LowerThanEqualsOperator = ''lte''"
definition LikeOperator :: RelationalOperator where "LikeOperator = ''like''"
definition ILikeOperator :: RelationalOperator where "ILikeOperator = ''ilike''"
definition InOperator :: RelationalOperator where "InOperator = ''in''"

text \<open>\<open>func (o LogicalOperator) Symbol() string\<close>: a switch with a default branch.\<close>

definition LogicalOperator_Symbol :: "LogicalOperator \<Rightarrow> string" where
  "LogicalOperator_Symbol o' =
     (if o' = OrOperator then OrOperator else AndOperator)"

text \<open>\<open>func (o RelationalOperator) Symbol() string\<close>: the cases in the source's order.\<close>

definition RelationalOperator_Symbol :: "RelationalOperator \<Rightarrow> string" where
  "RelationalOperator_Symbol o' =
     (if o' = NotEqualsOperator then ''<>''
      else if o' = GreaterThanOperator then ''>''
      else if o' = GreaterThanEqualsOperator then ''>=''
      else if o' = LowerThanOperator then ''<''
      else if o' = LowerThanEqualsOperator then ''<=''
      else if o' = LikeOperator then ''like''
      else if o' = ILikeOperator then ''ilike''
      else if o' = InOperator then ''in''
      else ''='')"

section \<open>The expression model\<close>

datatype Filter = Filter (f_Field: string) (f_Op: RelationalOperator) (f_Value: string)

datatype FilterGroup =
  FilterGroup (g_Op: LogicalOperator) (g_Filters: "Filter list") (g_Groups: "FilterGroup list")

type_synonym OrderDirection = string

datatype OrderClause = OrderClause (o_Field: string) (o_Direction: OrderDirection)

text \<open>
  \<open>SearchRequest\<close>: the pointer fields \<open>Groups\<close>, \<open>Limit\<close> and \<open>Offset\<close> are
  options (\<open>None\<close> is Go's nil). Go's \<open>int\<close> is only compared here, never computed
  with, so it is an \<open>int\<close>.
\<close>

record SearchRequest =
  Groups :: "FilterGroup option"
  OrderBy :: "OrderClause list"
  Limit :: "int option"
  Offset :: "int option"

section \<open>Package state and configuration\<close>

text \<open>
  A Go map is a reference to a map object. The package allocates exactly four map
  objects, all in the initialisers of its package variables (the literals of
  \<open>logicalOperators\<close>, \<open>relationalOperators\<close>, \<open>defaultFilterFields\<close> and
  \<open>defaultOrderFields\<close>); no function of the package allocates a map. A map value
  is therefore one of four references, and the store \<open>maps\<close> gives the key set of
  each object (the maps are \<open>map[K]struct{}\<close>, used as sets of strings).
\<close>

datatype mapobj =
  obj_logicalOperators | obj_relationalOperators | obj_filterFields | obj_orderFields

type_synonym store = "mapobj \<Rightarrow> string set"

text \<open>
  An \<open>ErrorHandler\<close> is a function value supplied by the caller; the package only
  stores it and calls it. It is identified by a tag.
\<close>

datatype ErrorHandler = BadRequestHandler | UserHandler nat

record pkg =
  maps :: store
  defaultQueryParam :: string
  defaultSearchMandatory :: bool
  defaultLogicalOperators :: mapobj
  defaultRelationalOperators :: mapobj
  defaultLimit :: "int option"
  defaultErrorHandler :: ErrorHandler
  defaultFilterFields :: mapobj
  defaultOrderFields :: mapobj

text \<open>
  The state after package initialisation. \<open>defaultLogicalOperators = logicalOperators\<close>
  copies the reference, so both variables name the same object.
\<close>

definition pkg_init :: pkg where
  "pkg_init =
     \<lparr> maps = (\<lambda>_. {})
         (obj_logicalOperators := {AndOperator, OrOperator},
          obj_relationalOperators :=
            {EqualsOperator, NotEqualsOperator, GreaterThanOperator,
             GreaterThanEqualsOperator, LowerThanOperator, LowerThanEqualsOperator,
             LikeOperator, ILikeOperator, InOperator}),
       defaultQueryParam = ''q'',
       defaultSearchMandatory = True,
       defaultLogicalOperators = obj_logicalOperators,
       defaultRelationalOperators = obj_relationalOperators,
       defaultLimit = None,
       defaultErrorHandler = BadRequestHandler,
       defaultFilterFields = obj_filterFields,
       defaultOrderFields = obj_orderFields \<rparr>"

record config =
  queryParam :: string
  isSearchMandatory :: bool
  allowedLogicalOperators :: mapobj
  allowedRelationalOperators :: mapobj
  limit :: "int option"
  errorHandler :: ErrorHandler
  allowedFilterFields :: mapobj
  allowedOrderFields :: mapobj

section \<open>Error texts\<close>

text \<open>
  A Go \<open>error\<close> built by \<open>errors.New\<close> or \<open>fmt.Errorf\<close> is its message text;
  \<open>None\<close> is the nil error. The verb \<open>%d\<close> prints an integer in decimal
  (\<open>fmt_d\<close>). The verb \<open>%q\<close> prints a string double-quoted and escaped by the
  standard library's \<open>strconv.Quote\<close>; that function is not part of this repository
  and is the parameter \<open>q\<close> of every function that formats with \<open>%q\<close>.
\<close>

type_synonym error = string

definition digit_char :: "nat \<Rightarrow> char" where
  "digit_char d = char_of (48 + d)"

function digits :: "nat \<Rightarrow> string" where
  "digits n = (if n < 10 then [digit_char n] else digits (n div 10) @ [digit_char (n mod 10)])"
  by pat_completeness auto
termination
  by (relation "measure id") auto

declare digits.simps [simp del]

definition fmt_d :: "int \<Rightarrow> string" where
  "fmt_d i = (if i < 0 then CHR ''-'' # digits (nat (- i)) else digits (nat i))"

section \<open>The validator\<close>

text \<open>
  The two loops over \<open>g.Filters\<close> and \<open>s.OrderBy\<close> return from the enclosing
  function at the first failing element.
\<close>

fun validateFilters :: "(string \<Rightarrow> string) \<Rightarrow> store \<Rightarrow> config \<Rightarrow> Filter list \<Rightarrow> error option" where
  "validateFilters q m opts [] = None"
| "validateFilters q m opts (f # fs) =
     (if f_Field f \<notin> m (allowedFilterFields opts)
      then Some (''field '' @ q (f_Field f) @ '' not allowed in filters'')
      else if f_Op f \<notin> m (allowedRelationalOperators opts)
      then Some (''relational operator '' @ q (f_Op f) @ '' not allowed for field '' @ q (f_Field f))
      else validateFilters q m opts fs)"

text \<open>
  The closure \<open>validateGroup\<close>: its argument is a pointer (\<open>None\<close> is nil); the
  loop over \<open>g.Groups\<close> (\<open>validateGroup_range\<close>) calls it on the address of each
  subgroup, which is never nil.
\<close>

function validateGroup :: "(string \<Rightarrow> string) \<Rightarrow> store \<Rightarrow> config \<Rightarrow> FilterGroup option \<Rightarrow> error option"
  and validateGroup_range :: "(string \<Rightarrow> string) \<Rightarrow> store \<Rightarrow> config \<Rightarrow> FilterGroup list \<Rightarrow> error option" where
  "validateGroup q m opts None = None"
| "validateGroup q m opts (Some g) =
     (if g_Op g \<notin> m (allowedLogicalOperators opts)
      then Some (''logical operator '' @ q (g_Op g) @ '' not allowed'')
      else (case validateFilters q m opts (g_Filters g) of
              Some err \<Rightarrow> Some err
            | None \<Rightarrow> validateGroup_range q m opts (g_Groups g)))"
| "validateGroup_range q m opts [] = None"
| "validateGroup_range q m opts (sg # sgs) =
     (case validateGroup q m opts (Some sg) of
        Some err \<Rightarrow> Some err
      | None \<Rightarrow> validateGroup_range q m opts sgs)"
  by pat_completeness auto

termination
proof (relation "measure (\<lambda>x. case x of
         Inl (_, _, _, None) \<Rightarrow> 0
       | Inl (_, _, _, Some g) \<Rightarrow> 2 * size g + 1
       | Inr (_, _, _, gs) \<Rightarrow> 2 * size_list size gs)")
  fix q :: "string \<Rightarrow> string" and m :: store and opts :: config and g :: FilterGroup
  have "2 * size_list size (g_Groups g) < Suc (2 * size g)"
    by (cases g) simp
  then show "(Inr (q, m, opts, g_Groups g), Inl (q, m, opts, Some g)) \<in> measure (\<lambda>x. case x of
         Inl (_, _, _, None) \<Rightarrow> 0
       | Inl (_, _, _, Some g) \<Rightarrow> 2 * size g + 1
       | Inr (_, _, _, gs) \<Rightarrow> 2 * size_list size gs)"
    by simp
qed auto

fun validateOrderBy :: "(string \<Rightarrow> string) \<Rightarrow> store \<Rightarrow> config \<Rightarrow> OrderClause list \<Rightarrow> error option" where
  "validateOrderBy q m opts [] = None"
| "validateOrderBy q m opts (oc # ocs) =
     (if o_Field oc \<notin> m (allowedOrderFields opts)
      then Some (''field '' @ q (o_Field oc) @ '' not allowed in order by'')
      else validateOrderBy q m opts ocs)"

definition limit_negative :: "SearchRequest \<Rightarrow> bool" where
  "limit_negative s = (case Limit s of None \<Rightarrow> False | Some l \<Rightarrow> l < 0)"

definition offset_negative :: "SearchRequest \<Rightarrow> bool" where
  "offset_negative s = (case Offset s of None \<Rightarrow> False | Some off \<Rightarrow> off < 0)"

definition validateSearchRequest ::
  "(string \<Rightarrow> string) \<Rightarrow> store \<Rightarrow> SearchRequest \<Rightarrow> config \<Rightarrow> error option" where
  "validateSearchRequest q m s opts =
     (if limit_negative s then Some ''limit must be null or >= 0''
      else case (case limit opts of
                   None \<Rightarrow> None
                 | Some mx \<Rightarrow>
                     (case Limit s of
                        None \<Rightarrow> Some ''limit is mandatory''
                      | Some l \<Rightarrow>
                          if l > mx then Some (''limit must be between 0 and '' @ fmt_d mx)
                          else None)) of
             Some err \<Rightarrow> Some err
           | None \<Rightarrow>
               if offset_negative s then Some ''offset must be null or >= 0''
               else (case validateOrderBy q m opts (OrderBy s) of
                       Some err \<Rightarrow> Some err
                     | None \<Rightarrow> validateGroup q m opts (Groups s)))"

section \<open>Defaults and options\<close>

text \<open>
  \<open>clear(mp)\<close> empties the map object \<open>mp\<close> refers to, and \<open>mp[v] = struct{}{}\<close>
  adds a key to it: both act on the object, so every variable and every \<open>config\<close>
  field holding the same reference sees the change.
\<close>

definition map_clear :: "mapobj \<Rightarrow> store \<Rightarrow> store" where
  "map_clear mp m = m(mp := {})"

definition map_put :: "mapobj \<Rightarrow> string \<Rightarrow> store \<Rightarrow> store" where
  "map_put mp v m = m(mp := insert v (m mp))"

text \<open>The loop \<open>for _, v := range xs { mp[v] = struct{}{} }\<close>.\<close>

definition map_put_range :: "mapobj \<Rightarrow> string list \<Rightarrow> store \<Rightarrow> store" where
  "map_put_range mp xs m = fold (map_put mp) xs m"

definition SetDefaultQueryParam :: "string \<Rightarrow> pkg \<Rightarrow> pkg" where
  "SetDefaultQueryParam qp st = st\<lparr>defaultQueryParam := qp\<rparr>"

definition SetDefaultSearchMandatory :: "bool \<Rightarrow> pkg \<Rightarrow> pkg" where
  "SetDefaultSearchMandatory isMandatory st = st\<lparr>defaultSearchMandatory := isMandatory\<rparr>"

definition SetDefaultLogicalOperators :: "LogicalOperator list \<Rightarrow> pkg \<Rightarrow> pkg" where
  "SetDefaultLogicalOperators operators st =
     st\<lparr>maps := map_put_range (defaultLogicalOperators st) operators
                   (map_clear (defaultLogicalOperators st) (maps st))\<rparr>"

definition SetDefaultRelationalOperators :: "RelationalOperator list \<Rightarrow> pkg \<Rightarrow> pkg" where
  "SetDefaultRelationalOperators operators st =
     st\<lparr>maps := map_put_range (defaultRelationalOperators st) operators
                   (map_clear (defaultRelationalOperators st) (maps st))\<rparr>"

definition SetDefaultLimit :: "int \<Rightarrow> pkg \<Rightarrow> pkg" where
  "SetDefaultLimit lim st =
     (if lim < 0 then st\<lparr>defaultLimit := None\<rparr> else st\<lparr>defaultLimit := Some lim\<rparr>)"

definition SetDefaultErrorHandler :: "ErrorHandler \<Rightarrow> pkg \<Rightarrow> pkg" where
  "SetDefaultErrorHandler h st = st\<lparr>defaultErrorHandler := h\<rparr>"

definition SetDefaultFilterFields :: "string list \<Rightarrow> pkg \<Rightarrow> pkg" where
  "SetDefaultFilterFields flds st =
     st\<lparr>maps := map_put_range (defaultFilterFields st) flds
                   (map_clear (defaultFilterFields st) (maps st))\<rparr>"

definition SetDefaultOrderFields :: "string list \<Rightarrow> pkg \<Rightarrow> pkg" where
  "SetDefaultOrderFields flds st =
     st\<lparr>maps := map_put_range (defaultOrderFields st) flds
                   (map_clear (defaultOrderFields st) (maps st))\<rparr>"

text \<open>
  An \<open>Option\<close> is a \<open>func(*config)\<close>: it updates the \<open>config\<close> it is given and,
  through the map references the \<open>config\<close> holds, the map objects.
\<close>

type_synonym Option = "config \<Rightarrow> store \<Rightarrow> config \<times> store"

definition WithQueryParam :: "string \<Rightarrow> Option" where
  "WithQueryParam qp c m = (c\<lparr>queryParam := qp\<rparr>, m)"

definition WithSearchMandatory :: "bool \<Rightarrow> Option" where
  "WithSearchMandatory isMandatory c m = (c\<lparr>isSearchMandatory := isMandatory\<rparr>, m)"

definition WithLogicalOperators :: "LogicalOperator list \<Rightarrow> Option" where
  "WithLogicalOperators operators c m =
     (c, map_put_range (allowedLogicalOperators c) operators
           (map_clear (allowedLogicalOperators c) m))"

definition WithRelationalOperators :: "RelationalOperator list \<Rightarrow> Option" where
  "WithRelationalOperators operators c m =
     (c, map_put_range (allowedRelationalOperators c) operators
           (map_clear (allowedRelationalOperators c) m))"

definition WithLimit :: "int \<Rightarrow> Option" where
  "WithLimit lim c m = (if lim < 0 then (c\<lparr>limit := None\<rparr>, m) else (c\<lparr>limit := Some lim\<rparr>, m))"

definition WithErrorHandler :: "ErrorHandler \<Rightarrow> Option" where
  "WithErrorHandler h c m = (c\<lparr>errorHandler := h\<rparr>, m)"

definition WithFilterFields :: "string list \<Rightarrow> Option" where
  "WithFilterFields flds c m =
     (c, map_put_range (allowedFilterFields c) flds (map_clear (allowedFilterFields c) m))"

definition WithExtraFilterFields :: "string list \<Rightarrow> Option" where
  "WithExtraFilterFields flds c m = (c, map_put_range (allowedFilterFields c) flds m)"

definition WithOrderFields :: "string list \<Rightarrow> Option" where
  "WithOrderFields flds c m =
     (c, map_put_range (allowedOrderFields c) flds (map_clear (allowedOrderFields c) m))"

definition WithExtraOrderFields :: "string list \<Rightarrow> Option" where
  "WithExtraOrderFields flds c m = (c, map_put_range (allowedOrderFields c) flds m)"

text \<open>
  \<open>NewSearchHandler\<close>, the construction part: the \<open>config\<close> literal copies the
  package variables (for the four sets, the references), then the options run in the
  order given. The result is the \<open>config\<close> the returned middleware closes over and
  the package state the construction leaves behind.
\<close>

definition NewSearchHandler :: "Option list \<Rightarrow> pkg \<Rightarrow> config \<times> pkg" where
  "NewSearchHandler opts st =
     (let c = \<lparr> queryParam = defaultQueryParam st,
                 isSearchMandatory = defaultSearchMandatory st,
                 allowedLogicalOperators = defaultLogicalOperators st,
                 allowedRelationalOperators = defaultRelationalOperators st,
                 limit = defaultLimit st,
                 errorHandler = defaultErrorHandler st,
                 allowedFilterFields = defaultFilterFields st,
                 allowedOrderFields = defaultOrderFields st \<rparr>;
          (c', m') = fold (\<lambda>opt (c, m). opt c m) opts (c, maps st)
      in (c', st\<lparr>maps := m'\<rparr>))"

section \<open>The request handler\<close>

text \<open>
  Of a request the handler reads the parsed query (\<open>r.URL.Query()\<close>, a map from a
  parameter name to its values) and the context value under the package's private
  \<open>searchKey\<close>; \<open>r.WithContext(context.WithValue(r.Context(), searchKey, &search))\<close>
  sets the latter. \<open>Values_Get\<close> is \<open>url.Values.Get\<close>: the first value of the key,
  or the empty string when the key has no value.
\<close>

record request =
  url_query :: "string \<rightharpoonup> string list"
  ctx_search :: "SearchRequest option"

definition Values_Get :: "(string \<rightharpoonup> string list) \<Rightarrow> string \<Rightarrow> string" where
  "Values_Get v key = (case v key of None \<Rightarrow> [] | Some [] \<Rightarrow> [] | Some (x # _) \<Rightarrow> x)"

definition GetSearchRequest :: "request \<Rightarrow> SearchRequest option" where
  "GetSearchRequest r = ctx_search r"

text \<open>
  The handler's effects are the calls it makes to its collaborators, in order: the
  JSON decoder (on the parameter's text), the configured error handler (with the
  request and the error), and the downstream handler \<open>next\<close> (with the request). The
  response writer is handed through untouched and is left out. The decoder
  (\<open>encoding/json\<close> with \<open>DisallowUnknownFields\<close>) is the parameter \<open>decode\<close>: it
  yields an error or the decoded \<open>SearchRequest\<close>.
\<close>

datatype call =
  Decode_call string
| errorHandler_call ErrorHandler request error
| next_ServeHTTP request

definition ServeHTTP ::
  "(string \<Rightarrow> string) \<Rightarrow> (string \<Rightarrow> error + SearchRequest) \<Rightarrow> store \<Rightarrow> config \<Rightarrow> request \<Rightarrow> call list" where
  "ServeHTTP q decode m c r =
     (let s = Values_Get (url_query r) (queryParam c) in
      if s = [] then
        (if \<not> isSearchMandatory c then [next_ServeHTTP r]
         else [errorHandler_call (errorHandler c) r
                 (''missing '' @ q (queryParam c) @ '' query parameter'')])
      else
        Decode_call s #
        (case decode s of
           Inl err \<Rightarrow> [errorHandler_call (errorHandler c) r err]
         | Inr search \<Rightarrow>
             (case validateSearchRequest q m search c of
                Some err \<Rightarrow> [errorHandler_call (errorHandler c) r err]
              | None \<Rightarrow> [next_ServeHTTP (r\<lparr>ctx_search := Some search\<rparr>)])))"

section \<open>Notions used to state the properties\<close>

text \<open>All groups of a filter tree, the root first; none when the root is nil.\<close>

fun subgroups :: "FilterGroup \<Rightarrow> FilterGroup list" where
  "subgroups (FilterGroup op' fs gs) = FilterGroup op' fs gs # concat (map subgroups gs)"

definition tree_groups :: "FilterGroup option \<Rightarrow> FilterGroup list" where
  "tree_groups root = (case root of None \<Rightarrow> [] | Some g \<Rightarrow> subgroups g)"

definition group_ok :: "store \<Rightarrow> config \<Rightarrow> FilterGroup \<Rightarrow> bool" where
  "group_ok m opts g \<longleftrightarrow>
     g_Op g \<in> m (allowedLogicalOperators opts) \<and>
     (\<forall>f\<in>set (g_Filters g).
        f_Field f \<in> m (allowedFilterFields opts) \<and> f_Op f \<in> m (allowedRelationalOperators opts))"

text \<open>The request with no root group, no order clause, no limit and no offset.\<close>

definition empty_request :: SearchRequest where
  "empty_request = \<lparr> Groups = None, OrderBy = [], Limit = None, Offset = None \<rparr>"

subsection \<open>Sample values\<close>

text \<open>
  What \<open>strconv.Quote\<close> yields on printable ASCII text with no double quote and no
  backslash in it: the text between double quotes. It stands for \<open>q\<close> where a
  property is evaluated on such text.
\<close>

definition plain_quote :: "string \<Rightarrow> string" where
  "plain_quote s = CHR 0x22 # s @ [CHR 0x22]"

definition sample_store :: store where
  "sample_store = (\<lambda>_. {})
     (obj_logicalOperators := {AndOperator, OrOperator},
      obj_relationalOperators := {EqualsOperator, LikeOperator},
      obj_filterFields := {''id'', ''name''},
      obj_orderFields := {''id''})"

definition sample_config :: config where
  "sample_config =
     \<lparr> queryParam = ''q'', isSearchMandatory = True,
       allowedLogicalOperators = obj_logicalOperators,
       allowedRelationalOperators = obj_relationalOperators,
       limit = Some 10, errorHandler = BadRequestHandler,
       allowedFilterFields = obj_filterFields,
       allowedOrderFields = obj_orderFields \<rparr>"

definition sample_request :: SearchRequest where
  "sample_request =
     \<lparr> Groups = Some (FilterGroup AndOperator [Filter ''id'' EqualsOperator ''1'']
                  [FilterGroup OrOperator [Filter ''name'' LikeOperator ''a''] []]),
       OrderBy = [OrderClause ''id'' ''desc''],
       Limit = Some 5,
       Offset = Some 0 \<rparr>"

definition sample_filter_request :: "string \<Rightarrow> SearchRequest" where
  "sample_filter_request fld =
     empty_request\<lparr>Groups := Some (FilterGroup AndOperator [Filter fld EqualsOperator ''x''] [])\<rparr>"

text \<open>
  A decoder that knows three payloads, and two requests: one carrying the parameter
  \<open>q\<close> with a given value, one without any parameter.
\<close>

definition sample_decode :: "string \<Rightarrow> error + SearchRequest" where
  "sample_decode s =
     (if s = ''{}'' then Inr empty_request
      else if s = ''{\"limit\":5}'' then Inr (empty_request\<lparr>Limit := Some 5\<rparr>)
      else Inl ''unexpected EOF'')"

definition sample_http :: "string \<Rightarrow> request" where
  "sample_http v = \<lparr> url_query = [''q'' \<mapsto> [v]], ctx_search = None \<rparr>"

definition absent_http :: request where
  "absent_http = \<lparr> url_query = Map.empty, ctx_search = None \<rparr>"

text \<open>
  A run of the configuration code: the default filter fields are set to \<open>id\<close>, a
  handler is built with \<open>WithFilterFields("name")\<close>, and later the default filter
  fields are set to \<open>email\<close>.
\<close>

definition st_defaults :: pkg where
  "st_defaults = SetDefaultFilterFields [''id''] pkg_init"

definition cfg_built :: config where
  "cfg_built = fst (NewSearchHandler [WithFilterFields [''name'']] st_defaults)"

definition st_built :: pkg where
  "st_built = snd (NewSearchHandler [WithFilterFields [''name'']] st_defaults)"

definition st_later :: pkg where
  "st_later = SetDefaultFilterFields [''email''] st_built"

subsection \<open>The validator's checks, in the order the specification gives them\<close>

text \<open>The limit checks (steps 1 and 2) all pass.\<close>

definition limit_checks_pass :: "SearchRequest \<Rightarrow> config \<Rightarrow> bool" where
  "limit_checks_pass s c \<longleftrightarrow>
     \<not> limit_negative s \<and>
     (case limit c of
        None \<Rightarrow> True
      | Some mx \<Rightarrow> (case Limit s of None \<Rightarrow> False | Some l \<Rightarrow> l \<le> mx))"

text \<open>
  The checks of a filter tree, listed depth-first in declaration order: at each group
  its logical operator, then for each of its filters in turn the field and then the
  operator, then the checks of each subgroup in turn. \<open>first_failure\<close> runs a list
  of checks and yields the error of the first that fails.
\<close>

datatype check =
  check_logical LogicalOperator
| check_field string
| check_relational RelationalOperator string

fun filter_checks :: "Filter \<Rightarrow> check list" where
  "filter_checks f = [check_field (f_Field f), check_relational (f_Op f) (f_Field f)]"

fun preorder_checks :: "FilterGroup \<Rightarrow> check list" where
  "preorder_checks (FilterGroup op' fs gs) =
     check_logical op' # concat (map filter_checks fs) @ concat (map preorder_checks gs)"

fun run_check :: "(string \<Rightarrow> string) \<Rightarrow> store \<Rightarrow> config \<Rightarrow> check \<Rightarrow> error option" where
  "run_check q m opts (check_logical op') =
     (if op' \<in> m (allowedLogicalOperators opts) then None
      else Some (''logical operator '' @ q op' @ '' not allowed''))"
| "run_check q m opts (check_field fld) =
     (if fld \<in> m (allowedFilterFields opts) then None
      else Some (''field '' @ q fld @ '' not allowed in filters''))"
| "run_check q m opts (check_relational op' fld) =
     (if op' \<in> m (allowedRelationalOperators opts) then None
      else Some (''relational operator '' @ q op' @ '' not allowed for field '' @ q fld))"

fun first_failure :: "(string \<Rightarrow> string) \<Rightarrow> store \<Rightarrow> config \<Rightarrow> check list \<Rightarrow> error option" where
  "first_failure q m opts [] = None"
| "first_failure q m opts (ck # cks) =
     (case run_check q m opts ck of
        Some err \<Rightarrow> Some err
      | None \<Rightarrow> first_failure q m opts cks)"

text \<open>An error text that reports a filter, or a group, as offending.\<close>

definition filter_error :: "(string \<Rightarrow> string) \<Rightarrow> store \<Rightarrow> config \<Rightarrow> Filter \<Rightarrow> error \<Rightarrow> bool" where
  "filter_error q m c f e \<longleftrightarrow>
     f_Field f \<notin> m (allowedFilterFields c) \<and>
       e = ''field '' @ q (f_Field f) @ '' not allowed in filters'' \<or>
     f_Op f \<notin> m (allowedRelationalOperators c) \<and>
       e = ''relational operator '' @ q (f_Op f) @ '' not allowed for field '' @ q (f_Field f)"

definition group_error :: "(string \<Rightarrow> string) \<Rightarrow> store \<Rightarrow> config \<Rightarrow> FilterGroup \<Rightarrow> error \<Rightarrow> bool" where
  "group_error q m c g e \<longleftrightarrow>
     g_Op g \<notin> m (allowedLogicalOperators c) \<and>
       e = ''logical operator '' @ q (g_Op g) @ '' not allowed'' \<or>
     (\<exists>f\<in>set (g_Filters g). filter_error q m c f e)"

section \<open>Properties\<close>

lemmas operator_defs =
  AndOperator_def OrOperator_def EqualsOperator_def NotEqualsOperator_def
  GreaterThanOperator_def GreaterThanEqualsOperator_def LowerThanOperator_def
  LowerThanEqualsOperator_def LikeOperator_def ILikeOperator_def InOperator_def

lemmas sample_defs = sample_store_def sample_config_def sample_request_def plain_quote_def

subsection \<open>Operator symbols\<close>

text \<open>
  Claim C9. For every token outside the nine relational operators,
  \<open>RelationalOperator.Symbol\<close> returns \<open>=\<close>; for every token outside \<open>and\<close>,
  \<open>or\<close>, \<open>LogicalOperator.Symbol\<close> returns \<open>and\<close>. Both functions are switches
  with a default branch and return on every input.
\<close>

theorem Symbol_default:
  "(t \<notin> {EqualsOperator, NotEqualsOperator, GreaterThanOperator, GreaterThanEqualsOperator,
          LowerThanOperator, LowerThanEqualsOperator, LikeOperator, ILikeOperator, InOperator}
      \<longrightarrow> RelationalOperator_Symbol t = ''='')
   \<and> (u \<notin> {AndOperator, OrOperator} \<longrightarrow> LogicalOperator_Symbol u = ''and'')"
  by (simp add: RelationalOperator_Symbol_def LogicalOperator_Symbol_def AndOperator_def)

theorem Symbol_default_witness:
  "''between'' \<notin> {EqualsOperator, NotEqualsOperator, GreaterThanOperator,
          GreaterThanEqualsOperator, LowerThanOperator, LowerThanEqualsOperator, LikeOperator,
          ILikeOperator, InOperator}
   \<and> RelationalOperator_Symbol ''between'' = ''=''
   \<and> ''xor'' \<notin> {AndOperator, OrOperator}
   \<and> LogicalOperator_Symbol ''xor'' = ''and''"
  using Symbol_default [of "''between''" "''xor''"]
  by (simp add: operator_defs)

subsection \<open>What the validator accepts\<close>

lemma subgroups_unfold: "subgroups g = g # concat (map subgroups (g_Groups g))"
  by (cases g) simp

lemma validateOrderBy_None:
  "validateOrderBy q m opts ocs = None \<longleftrightarrow>
     (\<forall>oc\<in>set ocs. o_Field oc \<in> m (allowedOrderFields opts))"
  by (induction ocs) auto

lemma validateFilters_None:
  "validateFilters q m opts fs = None \<longleftrightarrow>
     (\<forall>f\<in>set fs. f_Field f \<in> m (allowedFilterFields opts) \<and>
                 f_Op f \<in> m (allowedRelationalOperators opts))"
  by (induction fs) auto

lemma validateGroup_None:
  "validateGroup q m opts root = None \<longleftrightarrow> (\<forall>g\<in>set (tree_groups root). group_ok m opts g)"
  "validateGroup_range q m opts gs = None \<longleftrightarrow>
     (\<forall>sg\<in>set gs. \<forall>g\<in>set (subgroups sg). group_ok m opts g)"
proof (induction q m opts root and q m opts gs rule: validateGroup_validateGroup_range.induct)
  case (1 q m opts)
  then show ?case by (simp add: tree_groups_def)
next
  case (2 q m opts g)
  show ?case
  proof (cases "g_Op g \<in> m (allowedLogicalOperators opts)")
    case False
    then show ?thesis
      by (auto simp: tree_groups_def subgroups_unfold [of g] group_ok_def)
  next
    case op_ok: True
    show ?thesis
    proof (cases "validateFilters q m opts (g_Filters g)")
      case (Some e)
      then have "\<not> group_ok m opts g"
        using validateFilters_None [of q m opts "g_Filters g"] by (auto simp: group_ok_def)
      with Some op_ok show ?thesis
        by (auto simp: tree_groups_def subgroups_unfold [of g])
    next
      case None
      then have "group_ok m opts g"
        using op_ok validateFilters_None [of q m opts "g_Filters g"]
        by (auto simp: group_ok_def)
      with None op_ok "2.IH" show ?thesis
        by (auto simp: tree_groups_def subgroups_unfold [of g])
    qed
  qed
next
  case (3 q m opts)
  then show ?case by simp
next
  case (4 q m opts sg sgs)
  then show ?case by (auto simp: tree_groups_def split: option.splits)
qed

text \<open>
  Claim C1. \<open>validateSearchRequest\<close> returns nil exactly when: the limit, if present,
  is not negative; if the policy has a maximum limit, the limit is present and at most
  that maximum; the offset, if present, is not negative; every order clause's field is
  an allowed order field; and every group of the (possibly absent) root tree has an
  allowed logical operator and only filters with an allowed field and an allowed
  relational operator.
\<close>

theorem validateSearchRequest_nil_iff:
  "validateSearchRequest q m s c = None \<longleftrightarrow>
     (\<forall>l. Limit s = Some l \<longrightarrow> 0 \<le> l) \<and>
     (\<forall>mx. limit c = Some mx \<longrightarrow> (\<exists>l. Limit s = Some l \<and> l \<le> mx)) \<and>
     (\<forall>off. Offset s = Some off \<longrightarrow> 0 \<le> off) \<and>
     (\<forall>oc\<in>set (OrderBy s). o_Field oc \<in> m (allowedOrderFields c)) \<and>
     (\<forall>g\<in>set (tree_groups (Groups s)).
        g_Op g \<in> m (allowedLogicalOperators c) \<and>
        (\<forall>f\<in>set (g_Filters g).
           f_Field f \<in> m (allowedFilterFields c) \<and>
           f_Op f \<in> m (allowedRelationalOperators c)))"
proof -
  have lim: "\<not> limit_negative s \<longleftrightarrow> (\<forall>l. Limit s = Some l \<longrightarrow> 0 \<le> l)"
    by (auto simp: limit_negative_def split: option.splits)
  have off: "\<not> offset_negative s \<longleftrightarrow> (\<forall>off. Offset s = Some off \<longrightarrow> 0 \<le> off)"
    by (auto simp: offset_negative_def split: option.splits)
  have grp: "validateGroup q m c (Groups s) = None \<longleftrightarrow>
     (\<forall>g\<in>set (tree_groups (Groups s)).
        g_Op g \<in> m (allowedLogicalOperators c) \<and>
        (\<forall>f\<in>set (g_Filters g).
           f_Field f \<in> m (allowedFilterFields c) \<and>
           f_Op f \<in> m (allowedRelationalOperators c)))"
    using validateGroup_None(1) [of q m c "Groups s"] by (simp add: group_ok_def)
  have "validateSearchRequest q m s c = None \<longleftrightarrow>
      \<not> limit_negative s \<and>
      (\<forall>mx. limit c = Some mx \<longrightarrow> (\<exists>l. Limit s = Some l \<and> l \<le> mx)) \<and>
      \<not> offset_negative s \<and>
      validateOrderBy q m c (OrderBy s) = None \<and>
      validateGroup q m c (Groups s) = None"
    by (auto simp: validateSearchRequest_def split: option.splits)
  then show ?thesis
    unfolding lim off grp validateOrderBy_None .
qed

theorem validateSearchRequest_nil_iff_witness:
  "Limit sample_request = Some 5 \<and> limit sample_config = Some 10 \<and>
   Offset sample_request = Some 0 \<and>
   map o_Field (OrderBy sample_request) = [''id''] \<and>
   ''id'' \<in> sample_store (allowedOrderFields sample_config) \<and>
   length (tree_groups (Groups sample_request)) = 2 \<and>
   validateSearchRequest plain_quote sample_store sample_request sample_config = None \<and>
   validateSearchRequest plain_quote sample_store (sample_request\<lparr>Limit := Some 20\<rparr>)
     sample_config \<noteq> None"
proof -
  have rhs:
    "(\<forall>l. Limit sample_request = Some l \<longrightarrow> 0 \<le> l) \<and>
     (\<forall>mx. limit sample_config = Some mx \<longrightarrow> (\<exists>l. Limit sample_request = Some l \<and> l \<le> mx)) \<and>
     (\<forall>off. Offset sample_request = Some off \<longrightarrow> 0 \<le> off) \<and>
     (\<forall>oc\<in>set (OrderBy sample_request). o_Field oc \<in> sample_store (allowedOrderFields sample_config)) \<and>
     (\<forall>g\<in>set (tree_groups (Groups sample_request)).
        g_Op g \<in> sample_store (allowedLogicalOperators sample_config) \<and>
        (\<forall>f\<in>set (g_Filters g).
           f_Field f \<in> sample_store (allowedFilterFields sample_config) \<and>
           f_Op f \<in> sample_store (allowedRelationalOperators sample_config)))"
    by (simp add: sample_defs tree_groups_def operator_defs)
  have ok: "validateSearchRequest plain_quote sample_store sample_request sample_config = None"
    using rhs
      validateSearchRequest_nil_iff [of plain_quote sample_store sample_request sample_config]
    by blast
  have "\<not> (\<exists>l. Limit (sample_request\<lparr>Limit := Some 20\<rparr>) = Some l \<and> l \<le> 10)"
    by simp
  then have bad:
    "validateSearchRequest plain_quote sample_store (sample_request\<lparr>Limit := Some 20\<rparr>)
       sample_config \<noteq> None"
    using validateSearchRequest_nil_iff
      [of plain_quote sample_store "sample_request\<lparr>Limit := Some 20\<rparr>" sample_config]
    by (simp add: sample_config_def)
  show ?thesis
    using ok bad by (simp add: sample_defs tree_groups_def)
qed

subsection \<open>The empty request\<close>

text \<open>
  Claim C2, as amended. Against every policy with no maximum limit, the request with
  no root group, no order clause, no limit and no offset validates successfully,
  whatever the allow-sets and the mandatory flag are.
\<close>

theorem empty_request_valid:
  "limit c = None \<Longrightarrow> validateSearchRequest q m empty_request c = None"
  by (simp add: validateSearchRequest_def empty_request_def limit_negative_def
      offset_negative_def)

theorem empty_request_valid_witness:
  "limit (sample_config\<lparr>limit := None\<rparr>) = None \<and>
   validateSearchRequest plain_quote sample_store empty_request (sample_config\<lparr>limit := None\<rparr>)
     = None"
  using empty_request_valid [of "sample_config\<lparr>limit := None\<rparr>" plain_quote sample_store]
  by simp

text \<open>
  With a maximum limit in the policy the same request is rejected: the limit is then
  mandatory.
\<close>

theorem empty_request_rejected_with_maxLimit:
  "validateSearchRequest plain_quote sample_store empty_request sample_config
     = Some ''limit is mandatory''"
  by (simp add: validateSearchRequest_def empty_request_def limit_negative_def
      offset_negative_def sample_config_def)

subsection \<open>The order of the validator's checks\<close>

lemma validateOrderBy_first:
  "(\<forall>p\<in>set pre. o_Field p \<in> m (allowedOrderFields c)) \<Longrightarrow>
   o_Field oc \<notin> m (allowedOrderFields c) \<Longrightarrow>
   validateOrderBy q m c (pre @ oc # post) =
     Some (''field '' @ q (o_Field oc) @ '' not allowed in order by'')"
  by (induction pre) auto

lemma fmt_d_10: "fmt_d 10 = ''10''"
  by code_simp

text \<open>
  Claim C5. \<open>validateSearchRequest\<close> returns the error of the earliest failing check,
  in this order: (1) a negative limit; (2) with a maximum limit in the policy, a
  missing limit, then a limit above the maximum; (3) a negative offset; (4) the first
  order clause, in clause order, whose field is not allowed; (5) whatever the descent
  into the root group returns. Each line below assumes the earlier checks pass and
  nothing about the later ones.
\<close>

theorem validateSearchRequest_check_order:
  "(Limit s = Some l \<and> l < 0 \<longrightarrow>
      validateSearchRequest q m s c = Some ''limit must be null or >= 0'') \<and>
   (\<not> limit_negative s \<and> limit c = Some mx \<and> Limit s = None \<longrightarrow>
      validateSearchRequest q m s c = Some ''limit is mandatory'') \<and>
   (\<not> limit_negative s \<and> limit c = Some mx \<and> Limit s = Some l \<and> mx < l \<longrightarrow>
      validateSearchRequest q m s c = Some (''limit must be between 0 and '' @ fmt_d mx)) \<and>
   (limit_checks_pass s c \<and> Offset s = Some off \<and> off < 0 \<longrightarrow>
      validateSearchRequest q m s c = Some ''offset must be null or >= 0'') \<and>
   (limit_checks_pass s c \<and> \<not> offset_negative s \<and> OrderBy s = pre @ oc # post \<and>
    (\<forall>p\<in>set pre. o_Field p \<in> m (allowedOrderFields c)) \<and>
    o_Field oc \<notin> m (allowedOrderFields c) \<longrightarrow>
      validateSearchRequest q m s c =
        Some (''field '' @ q (o_Field oc) @ '' not allowed in order by'')) \<and>
   (limit_checks_pass s c \<and> \<not> offset_negative s \<and>
    (\<forall>oc\<in>set (OrderBy s). o_Field oc \<in> m (allowedOrderFields c)) \<longrightarrow>
      validateSearchRequest q m s c = validateGroup q m c (Groups s))"
proof (intro conjI impI)
  assume "Limit s = Some l \<and> l < 0"
  then show "validateSearchRequest q m s c = Some ''limit must be null or >= 0''"
    by (simp add: validateSearchRequest_def limit_negative_def)
next
  assume "\<not> limit_negative s \<and> limit c = Some mx \<and> Limit s = None"
  then show "validateSearchRequest q m s c = Some ''limit is mandatory''"
    by (simp add: validateSearchRequest_def)
next
  assume "\<not> limit_negative s \<and> limit c = Some mx \<and> Limit s = Some l \<and> mx < l"
  then show "validateSearchRequest q m s c =
      Some (''limit must be between 0 and '' @ fmt_d mx)"
    by (simp add: validateSearchRequest_def)
next
  assume "limit_checks_pass s c \<and> Offset s = Some off \<and> off < 0"
  then show "validateSearchRequest q m s c = Some ''offset must be null or >= 0''"
    by (auto simp: validateSearchRequest_def limit_checks_pass_def offset_negative_def
        split: option.splits)
next
  assume a: "limit_checks_pass s c \<and> \<not> offset_negative s \<and> OrderBy s = pre @ oc # post \<and>
    (\<forall>p\<in>set pre. o_Field p \<in> m (allowedOrderFields c)) \<and>
    o_Field oc \<notin> m (allowedOrderFields c)"
  then have "validateOrderBy q m c (OrderBy s) =
      Some (''field '' @ q (o_Field oc) @ '' not allowed in order by'')"
    using validateOrderBy_first [of pre m c oc q post] by simp
  with a show "validateSearchRequest q m s c =
        Some (''field '' @ q (o_Field oc) @ '' not allowed in order by'')"
    by (auto simp: validateSearchRequest_def limit_checks_pass_def split: option.splits)
next
  assume a: "limit_checks_pass s c \<and> \<not> offset_negative s \<and>
    (\<forall>oc\<in>set (OrderBy s). o_Field oc \<in> m (allowedOrderFields c))"
  then have "validateOrderBy q m c (OrderBy s) = None"
    by (simp add: validateOrderBy_None)
  with a show "validateSearchRequest q m s c = validateGroup q m c (Groups s)"
    by (auto simp: validateSearchRequest_def limit_checks_pass_def split: option.splits)
qed

text \<open>
  The theorem at requests that break several checks at once: each is answered with the
  error of the earliest one.
\<close>

theorem validateSearchRequest_check_order_witness:
  "validateSearchRequest plain_quote sample_store
     (sample_request\<lparr>Limit := Some (- 1), Offset := Some (- 1),
        OrderBy := [OrderClause ''zzz'' ''asc'']\<rparr>) sample_config
     = Some ''limit must be null or >= 0'' \<and>
   validateSearchRequest plain_quote sample_store
     (sample_request\<lparr>Limit := None, Offset := Some (- 1)\<rparr>) sample_config
     = Some ''limit is mandatory'' \<and>
   validateSearchRequest plain_quote sample_store
     (sample_request\<lparr>Limit := Some 20, Offset := Some (- 1)\<rparr>) sample_config
     = Some ''limit must be between 0 and 10'' \<and>
   validateSearchRequest plain_quote sample_store
     (sample_request\<lparr>Offset := Some (- 1), OrderBy := [OrderClause ''zzz'' ''asc'']\<rparr>)
     sample_config
     = Some ''offset must be null or >= 0'' \<and>
   validateSearchRequest plain_quote sample_store
     (sample_request\<lparr>OrderBy := [OrderClause ''id'' ''asc'', OrderClause ''zzz'' ''asc'',
                                  OrderClause ''yyy'' ''asc''],
        Groups := Some (FilterGroup ''xor'' [] [])\<rparr>) sample_config
     = Some (''field '' @ plain_quote ''zzz'' @ '' not allowed in order by'') \<and>
   validateSearchRequest plain_quote sample_store
     (sample_request\<lparr>Groups := Some (FilterGroup ''xor'' [] [])\<rparr>) sample_config
     = Some (''logical operator '' @ plain_quote ''xor'' @ '' not allowed'')"
proof (intro conjI)
  let ?s = "sample_request\<lparr>Limit := Some (- 1), Offset := Some (- 1),
        OrderBy := [OrderClause ''zzz'' ''asc'']\<rparr>"
  have "Limit ?s = Some (- 1) \<and> (- 1 :: int) < 0" by simp
  then show "validateSearchRequest plain_quote sample_store ?s sample_config
     = Some ''limit must be null or >= 0''"
    using validateSearchRequest_check_order [of ?s "- 1" plain_quote sample_store sample_config]
    by blast
next
  let ?s = "sample_request\<lparr>Limit := None, Offset := Some (- 1)\<rparr>"
  have "\<not> limit_negative ?s \<and> limit sample_config = Some 10 \<and> Limit ?s = None"
    by (simp add: limit_negative_def sample_config_def)
  then show "validateSearchRequest plain_quote sample_store ?s sample_config
     = Some ''limit is mandatory''"
    using validateSearchRequest_check_order
      [of ?s _ plain_quote sample_store sample_config 10]
    by blast
next
  let ?s = "sample_request\<lparr>Limit := Some 20, Offset := Some (- 1)\<rparr>"
  have "\<not> limit_negative ?s \<and> limit sample_config = Some 10 \<and> Limit ?s = Some 20 \<and>
      (10 :: int) < 20"
    by (simp add: limit_negative_def sample_config_def)
  then have "validateSearchRequest plain_quote sample_store ?s sample_config
     = Some (''limit must be between 0 and '' @ fmt_d 10)"
    using validateSearchRequest_check_order
      [of ?s 20 plain_quote sample_store sample_config 10]
    by blast
  then show "validateSearchRequest plain_quote sample_store ?s sample_config
     = Some ''limit must be between 0 and 10''"
    by (simp add: fmt_d_10)
next
  let ?s = "sample_request\<lparr>Offset := Some (- 1), OrderBy := [OrderClause ''zzz'' ''asc'']\<rparr>"
  have "limit_checks_pass ?s sample_config \<and> Offset ?s = Some (- 1) \<and> (- 1 :: int) < 0"
    by (simp add: limit_checks_pass_def limit_negative_def sample_config_def
        sample_request_def)
  then show "validateSearchRequest plain_quote sample_store ?s sample_config
     = Some ''offset must be null or >= 0''"
    using validateSearchRequest_check_order
      [of ?s _ plain_quote sample_store sample_config _ "- 1"]
    by blast
next
  let ?s = "sample_request\<lparr>OrderBy := [OrderClause ''id'' ''asc'', OrderClause ''zzz'' ''asc'',
                                  OrderClause ''yyy'' ''asc''],
        Groups := Some (FilterGroup ''xor'' [] [])\<rparr>"
  have "limit_checks_pass ?s sample_config \<and> \<not> offset_negative ?s \<and>
      OrderBy ?s = [OrderClause ''id'' ''asc''] @ OrderClause ''zzz'' ''asc'' #
                   [OrderClause ''yyy'' ''asc''] \<and>
      (\<forall>p\<in>set [OrderClause ''id'' ''asc''].
          o_Field p \<in> sample_store (allowedOrderFields sample_config)) \<and>
      o_Field (OrderClause ''zzz'' ''asc'') \<notin> sample_store (allowedOrderFields sample_config)"
    by (simp add: limit_checks_pass_def limit_negative_def offset_negative_def
        sample_config_def sample_request_def sample_store_def)
  then show "validateSearchRequest plain_quote sample_store ?s sample_config
     = Some (''field '' @ plain_quote ''zzz'' @ '' not allowed in order by'')"
    using validateSearchRequest_check_order
      [of ?s _ plain_quote sample_store sample_config _ _ "[OrderClause ''id'' ''asc'']"
          "OrderClause ''zzz'' ''asc''" "[OrderClause ''yyy'' ''asc'']"]
    by simp
next
  let ?s = "sample_request\<lparr>Groups := Some (FilterGroup ''xor'' [] [])\<rparr>"
  have "limit_checks_pass ?s sample_config \<and> \<not> offset_negative ?s \<and>
      (\<forall>oc\<in>set (OrderBy ?s). o_Field oc \<in> sample_store (allowedOrderFields sample_config))"
    by (simp add: limit_checks_pass_def limit_negative_def offset_negative_def
        sample_config_def sample_request_def sample_store_def)
  then have "validateSearchRequest plain_quote sample_store ?s sample_config
      = validateGroup plain_quote sample_store sample_config (Groups ?s)"
    using validateSearchRequest_check_order [of ?s _ plain_quote sample_store sample_config]
    by blast
  then show "validateSearchRequest plain_quote sample_store ?s sample_config
     = Some (''logical operator '' @ plain_quote ''xor'' @ '' not allowed'')"
    by (simp add: sample_config_def sample_store_def operator_defs)
qed

subsection \<open>The descent into the filter tree\<close>

lemma first_failure_append:
  "first_failure q m opts (xs @ ys) =
     (case first_failure q m opts xs of
        Some err \<Rightarrow> Some err
      | None \<Rightarrow> first_failure q m opts ys)"
  by (induction xs) (auto split: option.splits)

lemma validateFilters_first_failure:
  "validateFilters q m opts fs = first_failure q m opts (concat (map filter_checks fs))"
  by (induction fs) auto

lemma preorder_checks_unfold:
  "preorder_checks g =
     check_logical (g_Op g) # concat (map filter_checks (g_Filters g)) @
     concat (map preorder_checks (g_Groups g))"
  by (cases g) simp

lemma validateGroup_first_failure:
  "validateGroup q m opts root =
     (case root of None \<Rightarrow> None | Some g \<Rightarrow> first_failure q m opts (preorder_checks g))"
  "validateGroup_range q m opts gs = first_failure q m opts (concat (map preorder_checks gs))"
proof (induction q m opts root and q m opts gs rule: validateGroup_validateGroup_range.induct)
  case (1 q m opts)
  show ?case by simp
next
  case (2 q m opts g)
  show ?case
  proof (cases "g_Op g \<in> m (allowedLogicalOperators opts)")
    case False
    then show ?thesis by (simp add: preorder_checks_unfold [of g])
  next
    case True
    then show ?thesis
      using "2.IH"
      by (simp add: preorder_checks_unfold [of g] first_failure_append
          validateFilters_first_failure split: option.splits)
  qed
next
  case (3 q m opts)
  show ?case by simp
next
  case (4 q m opts sg sgs)
  then show ?case
    by (simp add: first_failure_append split: option.splits)
qed

text \<open>
  Claim C6. Validating a group yields the error of the first failing check of the
  depth-first, declaration-order list \<open>preorder_checks\<close>: the group's logical
  operator, then each of its filters in turn (field, then operator), then each
  subgroup in turn. Hence, with the group's operator allowed, a failing filter of the
  group is what is reported, whatever the subgroups hold, and the subgroups are
  reached only when every filter of the group has passed.
\<close>

theorem validateGroup_preorder:
  "validateGroup q m opts (Some g) = first_failure q m opts (preorder_checks g) \<and>
   (g_Op g \<in> m (allowedLogicalOperators opts) \<and>
    validateFilters q m opts (g_Filters g) = Some e \<longrightarrow>
      validateGroup q m opts (Some g) = Some e) \<and>
   (g_Op g \<in> m (allowedLogicalOperators opts) \<and>
    validateFilters q m opts (g_Filters g) = None \<longrightarrow>
      validateGroup q m opts (Some g) = validateGroup_range q m opts (g_Groups g))"
  using validateGroup_first_failure(1) [of q m opts "Some g"]
  by simp

text \<open>
  The theorem at a group whose second filter has a field that is not allowed and whose
  subgroup has an operator that is not allowed: the filter is reported. With the
  filter removed, the subgroup's operator is.
\<close>

theorem validateGroup_preorder_witness:
  "validateGroup plain_quote sample_store sample_config
     (Some (FilterGroup AndOperator
        [Filter ''id'' EqualsOperator ''1'', Filter ''zzz'' EqualsOperator ''2'']
        [FilterGroup ''xor'' [] []]))
     = Some (''field '' @ plain_quote ''zzz'' @ '' not allowed in filters'') \<and>
   validateGroup plain_quote sample_store sample_config
     (Some (FilterGroup AndOperator
        [Filter ''id'' EqualsOperator ''1'']
        [FilterGroup ''xor'' [] []]))
     = Some (''logical operator '' @ plain_quote ''xor'' @ '' not allowed'')"
proof (intro conjI)
  let ?g = "FilterGroup AndOperator
        [Filter ''id'' EqualsOperator ''1'', Filter ''zzz'' EqualsOperator ''2'']
        [FilterGroup ''xor'' [] []]"
  let ?e = "''field '' @ plain_quote ''zzz'' @ '' not allowed in filters''"
  have "g_Op ?g \<in> sample_store (allowedLogicalOperators sample_config) \<and>
      validateFilters plain_quote sample_store sample_config (g_Filters ?g) = Some ?e"
    by (simp add: sample_config_def sample_store_def operator_defs)
  then show "validateGroup plain_quote sample_store sample_config (Some ?g) = Some ?e"
    using validateGroup_preorder [of plain_quote sample_store sample_config ?g ?e]
    by blast
next
  let ?g = "FilterGroup AndOperator [Filter ''id'' EqualsOperator ''1'']
        [FilterGroup ''xor'' [] []]"
  have "g_Op ?g \<in> sample_store (allowedLogicalOperators sample_config) \<and>
      validateFilters plain_quote sample_store sample_config (g_Filters ?g) = None"
    by (simp add: sample_config_def sample_store_def operator_defs)
  then have "validateGroup plain_quote sample_store sample_config (Some ?g)
      = validateGroup_range plain_quote sample_store sample_config (g_Groups ?g)"
    using validateGroup_preorder [of plain_quote sample_store sample_config ?g]
    by blast
  then show "validateGroup plain_quote sample_store sample_config (Some ?g)
      = Some (''logical operator '' @ plain_quote ''xor'' @ '' not allowed'')"
    by (simp add: sample_config_def sample_store_def operator_defs)
qed

subsection \<open>The error texts\<close>

lemma validateOrderBy_Some:
  "validateOrderBy q m c ocs = Some e \<Longrightarrow>
     \<exists>oc\<in>set ocs. o_Field oc \<notin> m (allowedOrderFields c) \<and>
        e = ''field '' @ q (o_Field oc) @ '' not allowed in order by''"
  by (induction ocs) (auto split: if_splits)

lemma validateFilters_Some:
  "validateFilters q m c fs = Some e \<Longrightarrow> \<exists>f\<in>set fs. filter_error q m c f e"
  by (induction fs) (auto simp: filter_error_def split: if_splits)

lemma validateGroup_Some:
  "validateGroup q m c root = Some e \<Longrightarrow> \<exists>g\<in>set (tree_groups root). group_error q m c g e"
  "validateGroup_range q m c gs = Some e \<Longrightarrow>
     \<exists>sg\<in>set gs. \<exists>g\<in>set (subgroups sg). group_error q m c g e"
proof (induction q m c root and q m c gs rule: validateGroup_validateGroup_range.induct)
  case (1 q m opts)
  then show ?case by simp
next
  case (2 q m opts g)
  show ?case
  proof (cases "g_Op g \<in> m (allowedLogicalOperators opts)")
    case False
    with "2.prems" have "group_error q m opts g e"
      by (simp add: group_error_def)
    then show ?thesis
      by (auto simp: tree_groups_def subgroups_unfold [of g])
  next
    case op_ok: True
    show ?thesis
    proof (cases "validateFilters q m opts (g_Filters g)")
      case (Some e')
      with op_ok "2.prems" have "e' = e" by simp
      with Some have "group_error q m opts g e"
        using validateFilters_Some [of q m opts "g_Filters g" e] by (simp add: group_error_def)
      then show ?thesis
        by (auto simp: tree_groups_def subgroups_unfold [of g])
    next
      case None
      with op_ok "2.prems" have "validateGroup_range q m opts (g_Groups g) = Some e"
        by simp
      with "2.IH" [OF _ None] op_ok show ?thesis
        by (auto simp: tree_groups_def subgroups_unfold [of g])
    qed
  qed
next
  case (3 q m opts)
  then show ?case by simp
next
  case (4 q m opts sg sgs)
  then show ?case
    by (auto simp: tree_groups_def split: option.splits)
qed

text \<open>
  Claim C8, as amended. Every error of \<open>validateSearchRequest\<close> is one of eight texts.
  Five carry the offending item: a limit above the maximum gives a text ending in the
  maximum in decimal; an order field or filter field that is not allowed gives a text
  holding the quoted field; a logical or relational operator that is not allowed gives
  a text holding the quoted operator (the relational one also the quoted field). The
  other three, for a negative limit, a missing limit and a negative offset, are fixed
  texts that hold no value of the request.
\<close>

theorem validation_error_texts:
  "validateSearchRequest q m s c = Some e \<Longrightarrow>
     e = ''limit must be null or >= 0'' \<and> (\<exists>l. Limit s = Some l \<and> l < 0) \<or>
     e = ''limit is mandatory'' \<and> limit c \<noteq> None \<and> Limit s = None \<or>
     (\<exists>mx l. limit c = Some mx \<and> Limit s = Some l \<and> mx < l \<and>
        e = ''limit must be between 0 and '' @ fmt_d mx) \<or>
     e = ''offset must be null or >= 0'' \<and> (\<exists>off. Offset s = Some off \<and> off < 0) \<or>
     (\<exists>oc\<in>set (OrderBy s). o_Field oc \<notin> m (allowedOrderFields c) \<and>
        e = ''field '' @ q (o_Field oc) @ '' not allowed in order by'') \<or>
     (\<exists>g\<in>set (tree_groups (Groups s)).
        g_Op g \<notin> m (allowedLogicalOperators c) \<and>
          e = ''logical operator '' @ q (g_Op g) @ '' not allowed'' \<or>
        (\<exists>f\<in>set (g_Filters g).
           f_Field f \<notin> m (allowedFilterFields c) \<and>
             e = ''field '' @ q (f_Field f) @ '' not allowed in filters'' \<or>
           f_Op f \<notin> m (allowedRelationalOperators c) \<and>
             e = ''relational operator '' @ q (f_Op f) @ '' not allowed for field '' @
                 q (f_Field f)))"
proof -
  let ?lim = "case limit c of
                None \<Rightarrow> None
              | Some mx \<Rightarrow>
                  (case Limit s of
                     None \<Rightarrow> Some ''limit is mandatory''
                   | Some l \<Rightarrow>
                       if l > mx then Some (''limit must be between 0 and '' @ fmt_d mx)
                       else None)"
  assume v: "validateSearchRequest q m s c = Some e"
  consider
    (neg) "limit_negative s" |
    (lim) e' where "\<not> limit_negative s" "?lim = Some e'" |
    (off) "\<not> limit_negative s" "?lim = None" "offset_negative s" |
    (ord) "validateOrderBy q m c (OrderBy s) = Some e" |
    (grp) "validateGroup q m c (Groups s) = Some e"
    using v by (auto simp: validateSearchRequest_def split: if_splits option.splits)
  then show ?thesis
  proof cases
    case neg
    with v show ?thesis
      by (auto simp: validateSearchRequest_def limit_negative_def split: option.splits)
  next
    case lim
    with v have "e' = e" by (simp add: validateSearchRequest_def)
    with lim show ?thesis
      by (auto split: option.splits if_splits)
  next
    case off
    with v show ?thesis
      by (auto simp: validateSearchRequest_def offset_negative_def split: option.splits)
  next
    case ord
    then show ?thesis
      using validateOrderBy_Some [of q m c "OrderBy s" e] by blast
  next
    case grp
    then have "\<exists>g\<in>set (tree_groups (Groups s)). group_error q m c g e"
      by (rule validateGroup_Some(1))
    then show ?thesis
      unfolding group_error_def filter_error_def by blast
  qed
qed

text \<open>
  The theorem at a request whose limit 20 is above the maximum 10: of the eight texts
  only the one holding the maximum fits the error returned.
\<close>

theorem validation_error_texts_witness:
  "validateSearchRequest plain_quote sample_store (sample_request\<lparr>Limit := Some 20\<rparr>)
     sample_config = Some ''limit must be between 0 and 10'' \<and>
   (\<exists>mx l. limit sample_config = Some mx \<and>
      Limit (sample_request\<lparr>Limit := Some 20\<rparr>) = Some l \<and> mx < l \<and>
      ''limit must be between 0 and 10'' = ''limit must be between 0 and '' @ fmt_d mx)"
proof -
  have v: "validateSearchRequest plain_quote sample_store (sample_request\<lparr>Limit := Some 20\<rparr>)
     sample_config = Some ''limit must be between 0 and 10''"
    by (simp add: validateSearchRequest_def limit_negative_def sample_config_def fmt_d_10)
  from validation_error_texts [OF v]
  have "\<exists>mx l. limit sample_config = Some mx \<and>
      Limit (sample_request\<lparr>Limit := Some 20\<rparr>) = Some l \<and> mx < l \<and>
      ''limit must be between 0 and 10'' = ''limit must be between 0 and '' @ fmt_d mx"
    by (simp add: sample_request_def)
  with v show ?thesis by blast
qed

text \<open>
  A negative limit and a negative offset are answered with the same text whatever
  their value is, and the offending value is not in the text.
\<close>

theorem negative_limit_offset_fixed_text:
  "validateSearchRequest plain_quote sample_store (sample_request\<lparr>Limit := Some (- 5)\<rparr>)
     sample_config = Some ''limit must be null or >= 0'' \<and>
   validateSearchRequest plain_quote sample_store (sample_request\<lparr>Limit := Some (- 7)\<rparr>)
     sample_config = Some ''limit must be null or >= 0'' \<and>
   validateSearchRequest plain_quote sample_store (sample_request\<lparr>Offset := Some (- 5)\<rparr>)
     sample_config = Some ''offset must be null or >= 0'' \<and>
   validateSearchRequest plain_quote sample_store (sample_request\<lparr>Offset := Some (- 7)\<rparr>)
     sample_config = Some ''offset must be null or >= 0'' \<and>
   CHR ''5'' \<notin> set ''limit must be null or >= 0'' \<and>
   CHR ''5'' \<notin> set ''offset must be null or >= 0''"
  by (simp add: validateSearchRequest_def limit_negative_def offset_negative_def
      sample_config_def sample_request_def)

subsection \<open>The request handler\<close>

text \<open>
  Claim C4. When the parameter is missing and mandatory, when decoding fails, or when
  validation fails, the handler calls the configured error handler once, with that
  error and with the request as it came in (nothing attached), and does not call the
  downstream handler. When decoding and validation succeed, it calls the downstream
  handler once, with the decoded request attached, and does not call the error
  handler. The one remaining case, a missing parameter that is not mandatory, is the
  last line: the downstream handler is called with the request as it came in.
\<close>

theorem ServeHTTP_outcomes:
  "(Values_Get (url_query r) (queryParam c) = [] \<and> isSearchMandatory c \<longrightarrow>
      ServeHTTP q decode m c r =
        [errorHandler_call (errorHandler c) r
           (''missing '' @ q (queryParam c) @ '' query parameter'')]) \<and>
   (Values_Get (url_query r) (queryParam c) = s \<and> s \<noteq> [] \<and> decode s = Inl err \<longrightarrow>
      ServeHTTP q decode m c r = [Decode_call s, errorHandler_call (errorHandler c) r err]) \<and>
   (Values_Get (url_query r) (queryParam c) = s \<and> s \<noteq> [] \<and> decode s = Inr search \<and>
    validateSearchRequest q m search c = Some err \<longrightarrow>
      ServeHTTP q decode m c r = [Decode_call s, errorHandler_call (errorHandler c) r err]) \<and>
   (Values_Get (url_query r) (queryParam c) = s \<and> s \<noteq> [] \<and> decode s = Inr search \<and>
    validateSearchRequest q m search c = None \<longrightarrow>
      ServeHTTP q decode m c r =
        [Decode_call s, next_ServeHTTP (r\<lparr>ctx_search := Some search\<rparr>)] \<and>
      GetSearchRequest (r\<lparr>ctx_search := Some search\<rparr>) = Some search) \<and>
   (Values_Get (url_query r) (queryParam c) = [] \<and> \<not> isSearchMandatory c \<longrightarrow>
      ServeHTTP q decode m c r = [next_ServeHTTP r])"
  by (auto simp: ServeHTTP_def GetSearchRequest_def Let_def)

text \<open>
  The theorem at four requests against the sample policy (mandatory parameter \<open>q\<close>,
  maximum limit 10): no parameter; a payload the decoder rejects; a payload without
  limit, which validation rejects; a payload with limit 5, which passes.
\<close>

theorem ServeHTTP_outcomes_witness:
  "ServeHTTP plain_quote sample_decode sample_store sample_config absent_http =
     [errorHandler_call BadRequestHandler absent_http
        (''missing '' @ plain_quote ''q'' @ '' query parameter'')] \<and>
   ServeHTTP plain_quote sample_decode sample_store sample_config (sample_http ''{'') =
     [Decode_call ''{'',
      errorHandler_call BadRequestHandler (sample_http ''{'') ''unexpected EOF''] \<and>
   ServeHTTP plain_quote sample_decode sample_store sample_config (sample_http ''{}'') =
     [Decode_call ''{}'',
      errorHandler_call BadRequestHandler (sample_http ''{}'') ''limit is mandatory''] \<and>
   ServeHTTP plain_quote sample_decode sample_store sample_config
       (sample_http ''{\"limit\":5}'') =
     [Decode_call ''{\"limit\":5}'',
      next_ServeHTTP
        ((sample_http ''{\"limit\":5}'')\<lparr>ctx_search := Some (empty_request\<lparr>Limit := Some 5\<rparr>)\<rparr>)]"
proof (intro conjI)
  have "Values_Get (url_query absent_http) (queryParam sample_config) = [] \<and>
      isSearchMandatory sample_config"
    by (simp add: Values_Get_def absent_http_def sample_config_def)
  then have "ServeHTTP plain_quote sample_decode sample_store sample_config absent_http =
     [errorHandler_call (errorHandler sample_config) absent_http
        (''missing '' @ plain_quote (queryParam sample_config) @ '' query parameter'')]"
    using ServeHTTP_outcomes [of absent_http sample_config plain_quote sample_decode sample_store]
    by blast
  then show "ServeHTTP plain_quote sample_decode sample_store sample_config absent_http =
     [errorHandler_call BadRequestHandler absent_http
        (''missing '' @ plain_quote ''q'' @ '' query parameter'')]"
    by (simp add: sample_config_def)
next
  let ?r = "sample_http ''{''"
  have "Values_Get (url_query ?r) (queryParam sample_config) = ''{'' \<and> ''{'' \<noteq> [] \<and>
      sample_decode ''{'' = Inl ''unexpected EOF''"
    by (simp add: Values_Get_def sample_http_def sample_config_def sample_decode_def)
  then have "ServeHTTP plain_quote sample_decode sample_store sample_config ?r =
     [Decode_call ''{'', errorHandler_call (errorHandler sample_config) ?r ''unexpected EOF'']"
    using ServeHTTP_outcomes
      [of ?r sample_config plain_quote sample_decode sample_store "''{''" "''unexpected EOF''"]
    by blast
  then show "ServeHTTP plain_quote sample_decode sample_store sample_config ?r =
     [Decode_call ''{'', errorHandler_call BadRequestHandler ?r ''unexpected EOF'']"
    by (simp add: sample_config_def)
next
  let ?r = "sample_http ''{}''"
  have "Values_Get (url_query ?r) (queryParam sample_config) = ''{}'' \<and> ''{}'' \<noteq> [] \<and>
      sample_decode ''{}'' = Inr empty_request \<and>
      validateSearchRequest plain_quote sample_store empty_request sample_config
        = Some ''limit is mandatory''"
    by (simp add: Values_Get_def sample_http_def sample_config_def sample_decode_def
        validateSearchRequest_def empty_request_def limit_negative_def)
  then have "ServeHTTP plain_quote sample_decode sample_store sample_config ?r =
     [Decode_call ''{}'', errorHandler_call (errorHandler sample_config) ?r ''limit is mandatory'']"
    using ServeHTTP_outcomes
      [of ?r sample_config plain_quote sample_decode sample_store "''{}''"
          "''limit is mandatory''" empty_request]
    by blast
  then show "ServeHTTP plain_quote sample_decode sample_store sample_config ?r =
     [Decode_call ''{}'', errorHandler_call BadRequestHandler ?r ''limit is mandatory'']"
    by (simp add: sample_config_def)
next
  let ?p = "''{\"limit\":5}''"
  let ?r = "sample_http ?p"
  let ?s = "empty_request\<lparr>Limit := Some 5\<rparr>"
  have "Values_Get (url_query ?r) (queryParam sample_config) = ?p \<and> ?p \<noteq> [] \<and>
      sample_decode ?p = Inr ?s \<and>
      validateSearchRequest plain_quote sample_store ?s sample_config = None"
    by (simp add: Values_Get_def sample_http_def sample_config_def sample_decode_def
        validateSearchRequest_def empty_request_def limit_negative_def offset_negative_def)
  then show "ServeHTTP plain_quote sample_decode sample_store sample_config ?r =
     [Decode_call ?p, next_ServeHTTP (?r\<lparr>ctx_search := Some ?s\<rparr>)]"
    using ServeHTTP_outcomes
      [of ?r sample_config plain_quote sample_decode sample_store ?p _ ?s]
    by blast
qed

text \<open>
  Claim C7. When the request has no value for the configured parameter: if the
  parameter is mandatory, the handler's only call is the error handler with the
  missing-parameter error; if it is not mandatory, its only call is the downstream
  handler with the request unchanged, so a request that came in with nothing
  attached reaches the downstream handler with nothing attached. In both cases the
  decoder is not called, and the outcome does not depend on the decoder or on the
  allow-sets, which validation would read.
\<close>

theorem absent_parameter:
  "(url_query r (queryParam c) = None \<and> isSearchMandatory c \<longrightarrow>
      ServeHTTP q decode m c r =
        [errorHandler_call (errorHandler c) r
           (''missing '' @ q (queryParam c) @ '' query parameter'')]) \<and>
   (url_query r (queryParam c) = None \<and> \<not> isSearchMandatory c \<longrightarrow>
      ServeHTTP q decode m c r = [next_ServeHTTP r]) \<and>
   (ctx_search r = None \<longrightarrow> GetSearchRequest r = None)"
  by (simp add: ServeHTTP_def Values_Get_def GetSearchRequest_def)

theorem absent_parameter_witness:
  "ServeHTTP plain_quote sample_decode sample_store sample_config absent_http =
     [errorHandler_call BadRequestHandler absent_http
        (''missing '' @ plain_quote ''q'' @ '' query parameter'')] \<and>
   ServeHTTP plain_quote sample_decode sample_store
       (sample_config\<lparr>isSearchMandatory := False\<rparr>) absent_http =
     [next_ServeHTTP absent_http] \<and>
   GetSearchRequest absent_http = None"
proof (intro conjI)
  have "url_query absent_http (queryParam sample_config) = None \<and>
      isSearchMandatory sample_config"
    by (simp add: absent_http_def sample_config_def)
  then have "ServeHTTP plain_quote sample_decode sample_store sample_config absent_http =
     [errorHandler_call (errorHandler sample_config) absent_http
        (''missing '' @ plain_quote (queryParam sample_config) @ '' query parameter'')]"
    using absent_parameter [of absent_http sample_config plain_quote sample_decode sample_store]
    by blast
  then show "ServeHTTP plain_quote sample_decode sample_store sample_config absent_http =
     [errorHandler_call BadRequestHandler absent_http
        (''missing '' @ plain_quote ''q'' @ '' query parameter'')]"
    by (simp add: sample_config_def)
next
  let ?c = "sample_config\<lparr>isSearchMandatory := False\<rparr>"
  have "url_query absent_http (queryParam ?c) = None \<and> \<not> isSearchMandatory ?c"
    by (simp add: absent_http_def sample_config_def)
  then show "ServeHTTP plain_quote sample_decode sample_store ?c absent_http =
     [next_ServeHTTP absent_http]"
    using absent_parameter [of absent_http ?c plain_quote sample_decode sample_store]
    by blast
next
  show "GetSearchRequest absent_http = None"
    by (simp add: GetSearchRequest_def absent_http_def)
qed

text \<open>
  Claim C10. A parameter that is present with the empty string as its (first) value is
  handled as an absent one: the missing-parameter error if the parameter is
  mandatory, the downstream handler with the request unchanged if it is not. The
  decoder is never called on the empty string, for any request.
\<close>

theorem empty_parameter:
  "(url_query r (queryParam c) = Some ([] # vs) \<and> isSearchMandatory c \<longrightarrow>
      ServeHTTP q decode m c r =
        [errorHandler_call (errorHandler c) r
           (''missing '' @ q (queryParam c) @ '' query parameter'')]) \<and>
   (url_query r (queryParam c) = Some ([] # vs) \<and> \<not> isSearchMandatory c \<longrightarrow>
      ServeHTTP q decode m c r = [next_ServeHTTP r]) \<and>
   Decode_call [] \<notin> set (ServeHTTP q decode m c r)"
  by (auto simp: ServeHTTP_def Values_Get_def Let_def split: sum.splits option.splits)

theorem empty_parameter_witness:
  "url_query (sample_http []) ''q'' = Some [[]] \<and>
   ServeHTTP plain_quote sample_decode sample_store sample_config (sample_http []) =
     [errorHandler_call BadRequestHandler (sample_http [])
        (''missing '' @ plain_quote ''q'' @ '' query parameter'')] \<and>
   ServeHTTP plain_quote sample_decode sample_store
       (sample_config\<lparr>isSearchMandatory := False\<rparr>) (sample_http []) =
     [next_ServeHTTP (sample_http [])]"
proof (intro conjI)
  show "url_query (sample_http []) ''q'' = Some [[]]"
    by (simp add: sample_http_def)
next
  have "url_query (sample_http []) (queryParam sample_config) = Some ([] # []) \<and>
      isSearchMandatory sample_config"
    by (simp add: sample_http_def sample_config_def)
  then have "ServeHTTP plain_quote sample_decode sample_store sample_config (sample_http []) =
     [errorHandler_call (errorHandler sample_config) (sample_http [])
        (''missing '' @ plain_quote (queryParam sample_config) @ '' query parameter'')]"
    using empty_parameter
      [of "sample_http []" sample_config "[]" plain_quote sample_decode sample_store]
    by blast
  then show "ServeHTTP plain_quote sample_decode sample_store sample_config (sample_http []) =
     [errorHandler_call BadRequestHandler (sample_http [])
        (''missing '' @ plain_quote ''q'' @ '' query parameter'')]"
    by (simp add: sample_config_def)
next
  let ?c = "sample_config\<lparr>isSearchMandatory := False\<rparr>"
  have "url_query (sample_http []) (queryParam ?c) = Some ([] # []) \<and> \<not> isSearchMandatory ?c"
    by (simp add: sample_http_def sample_config_def)
  then show "ServeHTTP plain_quote sample_decode sample_store ?c (sample_http []) =
     [next_ServeHTTP (sample_http [])]"
    using empty_parameter
      [of "sample_http []" ?c "[]" plain_quote sample_decode sample_store]
    by blast
qed

subsection \<open>Handler construction and the default sets\<close>

lemmas config_run_defs =
  st_defaults_def cfg_built_def st_built_def st_later_def NewSearchHandler_def
  WithFilterFields_def SetDefaultFilterFields_def pkg_init_def map_put_range_def map_put_def
  map_clear_def

text \<open>
  Claim C3. Options given to one handler should leave the process-wide default sets
  alone, and a later change of the defaults should leave a built handler's policy
  alone. \<open>NewSearchHandler\<close> copies the map references into the \<open>config\<close>, so the
  handler and the defaults share one map object, and neither holds. In the run below
  the defaults hold \<open>id\<close>;
  building a handler with \<open>WithFilterFields("name")\<close> turns the default set into
  \<open>name\<close>, so a second handler built with no option rejects \<open>id\<close>; and setting the
  defaults to \<open>email\<close> afterwards changes the first handler's set, which then rejects
  \<open>name\<close>.
\<close>

theorem NewSearchHandler_shares_default_maps:
  "maps st_defaults (defaultFilterFields st_defaults) = {''id''} \<and>
   maps st_built (defaultFilterFields st_built) = {''name''} \<and>
   validateSearchRequest plain_quote (maps st_built) (sample_filter_request ''id'')
     (fst (NewSearchHandler [] st_built))
     = Some (''field '' @ plain_quote ''id'' @ '' not allowed in filters'') \<and>
   maps st_built (allowedFilterFields cfg_built) = {''name''} \<and>
   validateSearchRequest plain_quote (maps st_built) (sample_filter_request ''name'') cfg_built
     = None \<and>
   maps st_later (allowedFilterFields cfg_built) = {''email''} \<and>
   validateSearchRequest plain_quote (maps st_later) (sample_filter_request ''name'') cfg_built
     = Some (''field '' @ plain_quote ''name'' @ '' not allowed in filters'')"
  by (simp add: config_run_defs validateSearchRequest_def limit_negative_def
      offset_negative_def sample_filter_request_def empty_request_def operator_defs)

end
